theory Spec2Isabelle
  imports Complex_Main "HOL-Library.Sublist"
begin

section \<open>The stored data\<close>

text \<open>
  The three local-storage keys \<open>users\<close>, \<open>reports\<close> and \<open>currentUser\<close> hold JSON. The
  model keeps the parsed value under each key; an absent key is \<open>None\<close>.

  A report is the JSON object as it lies in the \<open>reports\<close> array. Three components
  declare a \<open>Report\<close> interface of their own, and they differ in the image key:
  \<open>imageUrl: string\<close> in AdminHome (and in the seeded demo reports), \<open>imageUrls: string[]\<close>
  in the UserHome that the application imports. A key that one writer leaves out is an
  optional field here, as are the \<open>assignedTo?\<close>, \<open>department?\<close> and \<open>comments?\<close> keys
  (a key whose value is \<open>undefined\<close> is dropped by \<open>JSON.stringify\<close>, so absent and
  \<open>undefined\<close> are the same \<open>None\<close>). The \<open>status\<close> of a stored report is the string
  that \<open>JSON.parse\<close> returns; the union type of the interface is the type of the
  parameter of \<open>updateReportStatus\<close> below.

  Field names are those of the source, with a prefix where two records of the source
  share a name (\<open>id\<close> is \<open>report_id\<close> and \<open>user_id\<close>) and a suffix where the library has
  the name already (\<open>total\<close> is \<open>total_count\<close>).
\<close>

record location =
  latitude :: real
  longitude :: real
  address :: string
  village :: string
  district :: string
  pincode :: string
  state :: string

record report =
  report_id :: string
  userId :: string
  title :: string
  description :: string
  category :: string
  imageUrl :: "string option"
  imageUrls :: "string list option"
  location :: location
  status :: string
  timestamp :: string
  assignedTo :: "string option"
  department :: "string option"
  comments :: "string option"

text \<open>The \<open>User\<close> interface of the view components (the \<open>user\<close> property they receive).\<close>

record user =
  user_id :: string
  email :: string
  name :: string
  isAdmin :: bool

text \<open>
  In \<open>App\<close> the user objects are untyped (\<open>any\<close>): an object is its list of keys and
  values, and \<open>u.k\<close> is a lookup that may find nothing.
\<close>

datatype jval = JString string | JBool bool

type_synonym obj = "(string \<times> jval) list"

definition get :: "obj \<Rightarrow> string \<Rightarrow> jval option" where
  "get u k = map_of u k"


record localStorage =
  ls_users :: "obj list option"
  ls_reports :: "report list option"
  ls_currentUser :: "obj option"

definition emptyStorage :: localStorage where
  "emptyStorage = \<lparr>ls_users = None, ls_reports = None, ls_currentUser = None\<rparr>"

text \<open>\<open>JSON.parse(localStorage.getItem('reports') || '[]')\<close>, and the same for \<open>users\<close>.\<close>

definition getReports :: "localStorage \<Rightarrow> report list" where
  "getReports ls = (case ls_reports ls of None \<Rightarrow> [] | Some rs \<Rightarrow> rs)"

definition getUsers :: "localStorage \<Rightarrow> obj list" where
  "getUsers ls = (case ls_users ls of None \<Rightarrow> [] | Some us \<Rightarrow> us)"

text \<open>The union type \<open>'pending' | 'in-progress' | 'resolved'\<close> and the string of each value.\<close>

datatype status_t = Pending | InProgress | Resolved

fun status_str :: "status_t \<Rightarrow> string" where
  "status_str Pending = ''pending''"
| "status_str InProgress = ''in-progress''"
| "status_str Resolved = ''resolved''"

definition statusValues :: "string list" where
  "statusValues = [''pending'', ''in-progress'', ''resolved'']"

section \<open>AdminHome\<close>

record filters =
  flt_status :: string
  flt_category :: string
  flt_district :: string

record admin_state =
  adm_reports :: "report list"
  adm_filteredReports :: "report list"
  adm_selectedReport :: "report option"
  adm_filters :: filters
  adm_activeTab :: string

text \<open>The body of the filter effect: three conditional \<open>Array.filter\<close> passes.\<close>

definition applyFilters :: "filters \<Rightarrow> report list \<Rightarrow> report list" where
  "applyFilters f reports =
     (let filtered = reports;
          filtered = (if flt_status f \<noteq> ''all''
                      then filter (\<lambda>r. status r = flt_status f) filtered else filtered);
          filtered = (if flt_category f \<noteq> ''all''
                      then filter (\<lambda>r. category r = flt_category f) filtered else filtered);
          filtered = (if flt_district f \<noteq> ''all''
                      then filter (\<lambda>r. district (location r) = flt_district f) filtered
                      else filtered)
      in filtered)"

text \<open>
  The effect depends on \<open>[reports, filters]\<close>: React runs it after every render in which
  one of the two changed, so every handler of the model that sets one of them is followed
  by it.
\<close>

definition filterEffect :: "admin_state \<Rightarrow> admin_state" where
  "filterEffect s = s\<lparr>adm_filteredReports := applyFilters (adm_filters s) (adm_reports s)\<rparr>"

text \<open>
  The mount effect loads the store into \<open>reports\<close> and \<open>filteredReports\<close>; the other
  state variables have their \<open>useState\<close> initial values.
\<close>

definition adminMount :: "localStorage \<Rightarrow> admin_state" where
  "adminMount ls =
     (let allReports = getReports ls
      in filterEffect
           \<lparr>adm_reports = allReports,
            adm_filteredReports = allReports,
            adm_selectedReport = None,
            adm_filters = \<lparr>flt_status = ''all'', flt_category = ''all'', flt_district = ''all''\<rparr>,
            adm_activeTab = ''dashboard''\<rparr>)"

text \<open>
  The object spread \<open>{ ...report, status, department, comments, assignedTo: user.name }\<close>.
\<close>

definition triage :: "user \<Rightarrow> status_t \<Rightarrow> string option \<Rightarrow> string option \<Rightarrow> report \<Rightarrow> report" where
  "triage u st dept comm r =
     r\<lparr>status := status_str st, department := dept, comments := comm,
       assignedTo := Some (name u)\<rparr>"

definition updateReportStatus ::
  "user \<Rightarrow> string \<Rightarrow> status_t \<Rightarrow> string option \<Rightarrow> string option
     \<Rightarrow> admin_state \<times> localStorage \<Rightarrow> admin_state \<times> localStorage" where
  "updateReportStatus u reportId st dept comm = (\<lambda>(s, ls).
     (let updatedReports =
            map (\<lambda>r. if report_id r = reportId then triage u st dept comm r else r)
                (adm_reports s);
          s = s\<lparr>adm_reports := updatedReports\<rparr>;
          ls = ls\<lparr>ls_reports := Some updatedReports\<rparr>;
          s = (case adm_selectedReport s of
                 None \<Rightarrow> s
               | Some selectedReport \<Rightarrow>
                   if report_id selectedReport = reportId
                   then s\<lparr>adm_selectedReport := Some (triage u st dept comm selectedReport)\<rparr>
                   else s)
      in (s, ls)))"

record stats =
  total_count :: nat
  pending :: nat
  inProgress :: nat
  resolved :: nat

definition getDashboardStats :: "admin_state \<Rightarrow> stats" where
  "getDashboardStats s =
     (let reports = adm_reports s;
          total = length reports;
          pending = length (filter (\<lambda>r. status r = ''pending'') reports);
          inProgress = length (filter (\<lambda>r. status r = ''in-progress'') reports);
          resolved = length (filter (\<lambda>r. status r = ''resolved'') reports)
      in \<lparr>total_count = total, pending = pending, inProgress = inProgress, resolved = resolved\<rparr>)"

text \<open>
  The image the dashboard shows for each of the first five reports:
  \<open>reports.slice(0, 5).map(report => <img src={report.imageUrl} ...>)\<close>. An absent key
  reads as \<open>undefined\<close>, here \<open>None\<close>.
\<close>

definition recentReportImages :: "admin_state \<Rightarrow> string option list" where
  "recentReportImages s = map imageUrl (take 5 (adm_reports s))"

text \<open>
  \<open>getUniqueValues('district')\<close>: the districts in order of first occurrence (the
  iteration order of a \<open>Set\<close>), without the empty string (\<open>filter(Boolean)\<close>).
\<close>

fun uniq :: "'a list \<Rightarrow> 'a list" where
  "uniq [] = []"
| "uniq (x # xs) = x # filter (\<lambda>y. y \<noteq> x) (uniq xs)"

definition getUniqueValues_district :: "admin_state \<Rightarrow> string list" where
  "getUniqueValues_district s =
     filter (\<lambda>d. d \<noteq> []) (uniq (map (\<lambda>r. district (location r)) (adm_reports s)))"

text \<open>
  The values the rendered controls can send: the four \<open>TabsTrigger\<close> values and the
  \<open>SelectItem\<close> values of the three filters.
\<close>

definition tabTriggers :: "string list" where
  "tabTriggers = [''dashboard'', ''reports'', ''map'', ''analytics'']"

definition statusItems :: "string list" where
  "statusItems = [''all'', ''pending'', ''in-progress'', ''resolved'']"

definition categoryItems :: "string list" where
  "categoryItems =
     [''all'', ''pothole'', ''streetlight'', ''garbage'', ''drainage'', ''traffic'', ''other'']"

definition districtItems :: "admin_state \<Rightarrow> string list" where
  "districtItems s = ''all'' # getUniqueValues_district s"

text \<open>
  The events of the dashboard, one per handler in the rendered tree, and what each
  handler does. A control sends only one of its own values, and a button exists only
  where the source renders it: the eye button for the first five reports, a card for each
  filtered report, the two status buttons while a report is selected and not yet
  resolved. An event that the current state does not offer leaves the state as it is.
\<close>

datatype admin_event =
    TabChange string
  | StatusFilterChange string
  | CategoryFilterChange string
  | DistrictFilterChange string
  | ViewRecent nat
  | SelectCard nat
  | MarkInProgress
  | MarkResolved

fun admin_handle :: "user \<Rightarrow> admin_event \<Rightarrow> admin_state \<times> localStorage \<Rightarrow> admin_state \<times> localStorage" where
  "admin_handle u (TabChange v) (s, ls) =
     (if v \<in> set tabTriggers then (s\<lparr>adm_activeTab := v\<rparr>, ls) else (s, ls))"
| "admin_handle u (StatusFilterChange v) (s, ls) =
     (if v \<in> set statusItems
      then (filterEffect (s\<lparr>adm_filters := (adm_filters s)\<lparr>flt_status := v\<rparr>\<rparr>), ls)
      else (s, ls))"
| "admin_handle u (CategoryFilterChange v) (s, ls) =
     (if v \<in> set categoryItems
      then (filterEffect (s\<lparr>adm_filters := (adm_filters s)\<lparr>flt_category := v\<rparr>\<rparr>), ls)
      else (s, ls))"
| "admin_handle u (DistrictFilterChange v) (s, ls) =
     (if v \<in> set (districtItems s)
      then (filterEffect (s\<lparr>adm_filters := (adm_filters s)\<lparr>flt_district := v\<rparr>\<rparr>), ls)
      else (s, ls))"
| "admin_handle u (ViewRecent i) (s, ls) =
     (if i < length (take 5 (adm_reports s))
      then (s\<lparr>adm_selectedReport := Some (take 5 (adm_reports s) ! i),
              adm_activeTab := ''reports''\<rparr>, ls)
      else (s, ls))"
| "admin_handle u (SelectCard i) (s, ls) =
     (if i < length (adm_filteredReports s)
      then (s\<lparr>adm_selectedReport := Some (adm_filteredReports s ! i)\<rparr>, ls)
      else (s, ls))"
| "admin_handle u MarkInProgress (s, ls) =
     (case adm_selectedReport s of
        None \<Rightarrow> (s, ls)
      | Some selectedReport \<Rightarrow>
          if status selectedReport \<noteq> ''resolved''
          then (let (s, ls) = updateReportStatus u (report_id selectedReport) InProgress
                                (Some ''Public Works'') None (s, ls)
                in (filterEffect s, ls))
          else (s, ls))"
| "admin_handle u MarkResolved (s, ls) =
     (case adm_selectedReport s of
        None \<Rightarrow> (s, ls)
      | Some selectedReport \<Rightarrow>
          if status selectedReport \<noteq> ''resolved''
          then (let (s, ls) = updateReportStatus u (report_id selectedReport) Resolved
                                (Some ''Public Works'') (Some ''Issue resolved successfully'')
                                (s, ls)
                in (filterEffect s, ls))
          else (s, ls))"

text \<open>
  The \<open>Tabs\<close> component shows the content of the active tab only: the eye buttons are part
  of the \<open>dashboard\<close> tab, the three filters, the cards and the two status buttons are
  part of the \<open>reports\<close> tab, and the tab triggers are always there.
\<close>

fun admin_offered :: "admin_state \<Rightarrow> admin_event \<Rightarrow> bool" where
  "admin_offered s (TabChange v) = True"
| "admin_offered s (ViewRecent i) = (adm_activeTab s = ''dashboard'')"
| "admin_offered s ev = (adm_activeTab s = ''reports'')"

definition admin_step :: "user \<Rightarrow> admin_event \<Rightarrow> admin_state \<times> localStorage \<Rightarrow> admin_state \<times> localStorage" where
  "admin_step u ev = (\<lambda>(s, ls).
     if admin_offered s ev then admin_handle u ev (s, ls) else (s, ls))"

text \<open>A visit of the dashboard: the mount, then the events in order.\<close>

definition admin_run :: "user \<Rightarrow> admin_event list \<Rightarrow> localStorage \<Rightarrow> admin_state \<times> localStorage" where
  "admin_run u es ls = fold (admin_step u) es (adminMount ls, ls)"

definition adminTabAfter :: "user \<Rightarrow> localStorage \<Rightarrow> admin_event list \<Rightarrow> string" where
  "adminTabAfter u ls es = adm_activeTab (fst (admin_run u es ls))"

section \<open>UserHome\<close>

text \<open>
  This is the default export, the component \<open>App\<close> imports. Of its state the model keeps
  the tab, the report list, the form, the captured location and the alert; the camera
  stream and the debug log are written by the handlers and read by none of them.

  The host functions the handlers call on numbers are parameters: \<open>toISOString\<close> of a
  date given in milliseconds and \<open>toFixed(6)\<close> of a coordinate.
\<close>

record env =
  toISOString :: "int \<Rightarrow> string"
  toFixed6 :: "real \<Rightarrow> string"

text \<open>\<open>Date.now().toString()\<close>: the decimal digits of an integer.\<close>

fun digits :: "nat \<Rightarrow> string" where
  "digits n = (if n < 10 then [''0123456789'' ! n]
               else digits (n div 10) @ [''0123456789'' ! (n mod 10)])"

declare digits.simps [simp del]

definition toString :: "int \<Rightarrow> string" where
  "toString n = (if n < 0 then CHR ''-'' # digits (nat (- n)) else digits (nat n))"

datatype user_tab = TabReport | TabMyReports

datatype alert_type = Success | Error

record alert =
  alert_type :: alert_type
  message :: string

record formData =
  form_title :: string
  form_description :: string
  form_category :: string
  form_imageUrls :: "string list"
  form_address :: string
  form_village :: string
  form_district :: string
  form_pincode :: string
  form_state :: string

record coords =
  coords_latitude :: real
  coords_longitude :: real

record user_state =
  usr_activeTab :: user_tab
  usr_reports :: "report list"
  usr_formData :: formData
  usr_location :: "coords option"
  usr_alert :: "alert option"

definition emptyForm :: formData where
  "emptyForm =
     \<lparr>form_title = [], form_description = [], form_category = ''pothole'',
      form_imageUrls = [], form_address = [], form_village = [], form_district = [],
      form_pincode = [], form_state = []\<rparr>"

text \<open>The effect on \<open>[user.id]\<close>: the reports of this user, out of the store.\<close>

definition userMount :: "user \<Rightarrow> localStorage \<Rightarrow> user_state" where
  "userMount u ls =
     (let allReports = getReports ls;
          filtered = filter (\<lambda>r. userId r = user_id u) allReports
      in \<lparr>usr_activeTab = TabReport, usr_reports = filtered, usr_formData = emptyForm,
          usr_location = None, usr_alert = None\<rparr>)"

text \<open>The number in the label \<open>My Reports ({reports.length})\<close>.\<close>

definition myReportsCount :: "user_state \<Rightarrow> nat" where
  "myReportsCount s = length (usr_reports s)"

definition showAlert :: "alert_type \<Rightarrow> string \<Rightarrow> user_state \<Rightarrow> user_state" where
  "showAlert ty msg s = s\<lparr>usr_alert := Some \<lparr>alert_type = ty, message = msg\<rparr>\<rparr>"

text \<open>\<open>x || 0\<close> on a number: zero is the only falsy value a coordinate can be.\<close>

definition orZero :: "real \<Rightarrow> real" where
  "orZero x = (if x = 0 then 0 else x)"

definition newReport :: "env \<Rightarrow> user \<Rightarrow> int \<Rightarrow> user_state \<Rightarrow> report" where
  "newReport e u now s =
     (let formData = usr_formData s
      in \<lparr>report_id = toString now,
          userId = user_id u,
          title = form_title formData,
          description = form_description formData,
          category = form_category formData,
          imageUrl = None,
          imageUrls = Some (form_imageUrls formData),
          location =
            \<lparr>latitude = (case usr_location s of None \<Rightarrow> 0
                          | Some l \<Rightarrow> orZero (coords_latitude l)),
             longitude = (case usr_location s of None \<Rightarrow> 0
                          | Some l \<Rightarrow> orZero (coords_longitude l)),
             address = form_address formData,
             village = form_village formData,
             district = form_district formData,
             pincode = form_pincode formData,
             state = form_state formData\<rparr>,
          status = ''pending'',
          timestamp = toISOString e now,
          assignedTo = None,
          department = None,
          comments = None\<rparr>)"

definition submitReport ::
  "env \<Rightarrow> user \<Rightarrow> int \<Rightarrow> user_state \<times> localStorage \<Rightarrow> user_state \<times> localStorage" where
  "submitReport e u now = (\<lambda>(s, ls).
     (let formData = usr_formData s
      in if form_title formData = [] \<or> form_description formData = []
            \<or> length (form_imageUrls formData) = 0
         then (showAlert Error ''Fill all fields and add image'' s, ls)
         else if usr_location s = None \<and> form_address formData = []
         then (showAlert Error ''Provide location or address'' s, ls)
         else
           (let r = newReport e u now s;
                allReports = getReports ls;
                allReports = allReports @ [r];
                ls = ls\<lparr>ls_reports := Some allReports\<rparr>;
                s = s\<lparr>usr_reports := usr_reports s @ [r]\<rparr>;
                s = s\<lparr>usr_formData := emptyForm\<rparr>;
                s = s\<lparr>usr_location := None\<rparr>;
                s = showAlert Success ''Report submitted'' s;
                s = s\<lparr>usr_activeTab := TabMyReports\<rparr>
            in (s, ls))))"

text \<open>\<open>prev.imageUrls.filter((_, i) => i !== index)\<close>.\<close>

definition removeAt :: "nat \<Rightarrow> 'a list \<Rightarrow> 'a list" where
  "removeAt index xs = map snd (filter (\<lambda>(i, _). i \<noteq> index) (enumerate 0 xs))"

text \<open>
  The events of the citizen's page: the two tab buttons, the seven inputs, the outcome of
  a location request, of a camera capture and of a file choice, the removal of a photo,
  the five-second timer of an alert, and the submit button.
\<close>

datatype user_event =
    TabClick user_tab
  | InputAddress string
  | InputVillage string
  | InputDistrict string
  | InputPincode string
  | InputState string
  | InputTitle string
  | InputDescription string
  | LocationCaptured real real
  | GeolocationUnsupported
  | LocationFailed
  | CameraFailed
  | VideoNotReady
  | PhotoCaptured string
  | FilesUploaded "string list"
  | RemoveImage nat
  | AlertTimeout
  | Submit int

definition setFormData :: "(formData \<Rightarrow> formData) \<Rightarrow> user_state \<Rightarrow> user_state" where
  "setFormData f s = s\<lparr>usr_formData := f (usr_formData s)\<rparr>"

fun user_handle :: "env \<Rightarrow> user \<Rightarrow> user_event \<Rightarrow> user_state \<times> localStorage \<Rightarrow> user_state \<times> localStorage" where
  "user_handle e u (TabClick t) (s, ls) = (s\<lparr>usr_activeTab := t\<rparr>, ls)"
| "user_handle e u (InputAddress v) (s, ls) = (setFormData (\<lambda>p. p\<lparr>form_address := v\<rparr>) s, ls)"
| "user_handle e u (InputVillage v) (s, ls) = (setFormData (\<lambda>p. p\<lparr>form_village := v\<rparr>) s, ls)"
| "user_handle e u (InputDistrict v) (s, ls) = (setFormData (\<lambda>p. p\<lparr>form_district := v\<rparr>) s, ls)"
| "user_handle e u (InputPincode v) (s, ls) = (setFormData (\<lambda>p. p\<lparr>form_pincode := v\<rparr>) s, ls)"
| "user_handle e u (InputState v) (s, ls) = (setFormData (\<lambda>p. p\<lparr>form_state := v\<rparr>) s, ls)"
| "user_handle e u (InputTitle v) (s, ls) = (setFormData (\<lambda>p. p\<lparr>form_title := v\<rparr>) s, ls)"
| "user_handle e u (InputDescription v) (s, ls) =
     (setFormData (\<lambda>p. p\<lparr>form_description := v\<rparr>) s, ls)"
| "user_handle e u (LocationCaptured lat lon) (s, ls) =
     (let s = s\<lparr>usr_location := Some \<lparr>coords_latitude = lat, coords_longitude = lon\<rparr>\<rparr>;
          s = showAlert Success ''Location captured'' s;
          s = setFormData (\<lambda>prev. prev
                \<lparr>form_address := toFixed6 e lat @ '', '' @ toFixed6 e lon,
                 form_village := ''Sample Village'',
                 form_district := ''Sample District'',
                 form_pincode := ''123456'',
                 form_state := ''Sample State''\<rparr>) s
      in (s, ls))"
| "user_handle e u GeolocationUnsupported (s, ls) =
     (showAlert Error ''Geolocation not supported'' s, ls)"
| "user_handle e u LocationFailed (s, ls) = (showAlert Error ''Unable to get location'' s, ls)"
| "user_handle e u CameraFailed (s, ls) =
     (showAlert Error ''Unable to access camera. Please use file upload instead.'' s, ls)"
| "user_handle e u VideoNotReady (s, ls) = (showAlert Error ''Video not ready'' s, ls)"
| "user_handle e u (PhotoCaptured imageDataUrl) (s, ls) =
     (let s = setFormData
                (\<lambda>prev. prev\<lparr>form_imageUrls := form_imageUrls prev @ [imageDataUrl]\<rparr>) s;
          s = showAlert Success ''Photo captured successfully'' s
      in (s, ls))"
| "user_handle e u (FilesUploaded newUrls) (s, ls) =
     (let s = setFormData (\<lambda>prev. prev\<lparr>form_imageUrls := form_imageUrls prev @ newUrls\<rparr>) s;
          s = showAlert Success ''Image(s) uploaded'' s
      in (s, ls))"
| "user_handle e u (RemoveImage index) (s, ls) =
     (setFormData (\<lambda>prev. prev\<lparr>form_imageUrls := removeAt index (form_imageUrls prev)\<rparr>) s, ls)"
| "user_handle e u AlertTimeout (s, ls) = (s\<lparr>usr_alert := None\<rparr>, ls)"
| "user_handle e u (Submit now) (s, ls) = submitReport e u now (s, ls)"

text \<open>
  The form, with its inputs and buttons, is rendered under \<open>activeTab === 'report'\<close>; the
  two tab buttons are always there. The callbacks of a location request and of a camera
  request and the timer of an alert arrive whatever the tab is by then.
\<close>

fun user_offered :: "user_state \<Rightarrow> user_event \<Rightarrow> bool" where
  "user_offered s (TabClick t) = True"
| "user_offered s (LocationCaptured lat lon) = True"
| "user_offered s LocationFailed = True"
| "user_offered s CameraFailed = True"
| "user_offered s AlertTimeout = True"
| "user_offered s ev = (usr_activeTab s = TabReport)"

definition user_step :: "env \<Rightarrow> user \<Rightarrow> user_event \<Rightarrow> user_state \<times> localStorage \<Rightarrow> user_state \<times> localStorage" where
  "user_step e u ev = (\<lambda>(s, ls).
     if user_offered s ev then user_handle e u ev (s, ls) else (s, ls))"

text \<open>A visit of the citizen's page: the mount, then the events in order.\<close>

definition user_run :: "env \<Rightarrow> user \<Rightarrow> user_event list \<Rightarrow> localStorage \<Rightarrow> user_state \<times> localStorage" where
  "user_run e u es ls = fold (user_step e u) es (userMount u ls, ls)"

definition userTabAfter :: "env \<Rightarrow> user \<Rightarrow> localStorage \<Rightarrow> user_event list \<Rightarrow> user_tab" where
  "userTabAfter e u ls es = usr_activeTab (fst (user_run e u es ls))"

section \<open>App\<close>

datatype auth_state = LoginState | RegisterState | Authenticated

record app_state =
  authState :: auth_state
  currentUser :: "obj option"

definition demoUsers :: "obj list" where
  "demoUsers =
     [[(''id'', JString ''1''),
       (''email'', JString ''user@demo.com''),
       (''password'', JString ''password123''),
       (''name'', JString ''Demo User''),
       (''isAdmin'', JBool False)],
      [(''id'', JString ''2''),
       (''email'', JString ''admin@demo.com''),
       (''password'', JString ''admin123''),
       (''name'', JString ''Admin User''),
       (''isAdmin'', JBool True)]]"

definition demoReports :: "env \<Rightarrow> int \<Rightarrow> report list" where
  "demoReports e now =
     [\<lparr>report_id = ''1'',
       userId = ''1'',
       title = ''Large Pothole on Main Street'',
       description =
         ''Deep pothole causing damage to vehicles. Located near the traffic signal.'',
       category = ''pothole'',
       imageUrl = Some (''https://images.unsplash.com/photo-1709934730506-fba12664d4e4''
         @ ''?crop=entropy&cs=tinysrgb&fit=max&fm=jpg&ixid=M3w3Nzg4Nzd8MHwxfHNlYXJjaHwxfHxwb3''
         @ ''Rob2xlJTIwcm9hZCUyMGRhbWFnZXxlbnwxfHx8fDE3NTc2OTYyMDd8MA&ixlib=rb-4.1.0&q=80''
         @ ''&w=1080&utm_source=figma&utm_medium=referral''),
       imageUrls = None,
       location =
         \<lparr>latitude = 28.6139,
          longitude = 77.2090,
          address = ''Main Street, Near Traffic Signal'',
          village = ''Central Delhi'',
          district = ''New Delhi'',
          pincode = ''110001'',
          state = ''Delhi''\<rparr>,
       status = ''pending'',
       timestamp = toISOString e (now - 2 * 24 * 60 * 60 * 1000),
       assignedTo = None,
       department = None,
       comments = None\<rparr>,
      \<lparr>report_id = ''2'',
       userId = ''1'',
       title = ''Streetlight Not Working'',
       description = ''Street light has been non-functional for over a week, ''
         @ ''making the area unsafe at night.'',
       category = ''streetlight'',
       imageUrl = Some (''https://images.unsplash.com/photo-1742119193536-7d228ef7f466''
         @ ''?crop=entropy&cs=tinysrgb&fit=max&fm=jpg&ixid=M3w3Nzg4Nzd8MHwxfHNlYXJjaHwxfHxicm''
         @ ''9rZW4lMjBzdHJlZXRsaWdodHxlbnwxfHx8fDE3NTc2MTI0ODR8MA&ixlib=rb-4.1.0&q=80''
         @ ''&w=1080&utm_source=figma&utm_medium=referral''),
       imageUrls = None,
       location =
         \<lparr>latitude = 28.6129,
          longitude = 77.2295,
          address = ''Park Road, Sector 5'',
          village = ''Sector 5'',
          district = ''New Delhi'',
          pincode = ''110001'',
          state = ''Delhi''\<rparr>,
       status = ''in-progress'',
       timestamp = toISOString e (now - 1 * 24 * 60 * 60 * 1000),
       assignedTo = Some ''Admin User'',
       department = Some ''Public Works'',
       comments = None\<rparr>]"

text \<open>
  The effect of the first render: seed each of the two stores if its key is absent, then
  resume a saved login.
\<close>

definition appInit :: "env \<Rightarrow> int \<Rightarrow> localStorage \<Rightarrow> app_state \<times> localStorage" where
  "appInit e now ls =
     (let ls = (if ls_users ls = None then ls\<lparr>ls_users := Some demoUsers\<rparr> else ls);
          ls = (if ls_reports ls = None then ls\<lparr>ls_reports := Some (demoReports e now)\<rparr>
                else ls);
          app = \<lparr>authState = LoginState, currentUser = None\<rparr>;
          app = (case ls_currentUser ls of
                   None \<Rightarrow> app
                 | Some savedUser \<Rightarrow>
                     app\<lparr>currentUser := Some savedUser, authState := Authenticated\<rparr>)
      in (app, ls))"

text \<open>
  The rest pattern \<open>const { password: _, ...userWithoutPassword } = user\<close>: every key of
  the object but \<open>password\<close>.
\<close>

definition withoutPassword :: "obj \<Rightarrow> obj" where
  "withoutPassword user = filter (\<lambda>(k, v). k \<noteq> ''password'') user"

definition handleLogin ::
  "string \<Rightarrow> string \<Rightarrow> app_state \<times> localStorage \<Rightarrow> bool \<times> app_state \<times> localStorage" where
  "handleLogin em pw = (\<lambda>(app, ls).
     (let users = getUsers ls
      in case find (\<lambda>u. get u ''email'' = Some (JString em)
                        \<and> get u ''password'' = Some (JString pw)) users of
           Some user \<Rightarrow>
             (let userWithoutPassword = withoutPassword user;
                  app = app\<lparr>currentUser := Some userWithoutPassword\<rparr>;
                  ls = ls\<lparr>ls_currentUser := Some userWithoutPassword\<rparr>;
                  app = app\<lparr>authState := Authenticated\<rparr>
              in (True, app, ls))
         | None \<Rightarrow> (False, app, ls)))"

definition handleRegister ::
  "string \<Rightarrow> string \<Rightarrow> string \<Rightarrow> bool \<Rightarrow> int \<Rightarrow> app_state \<times> localStorage
     \<Rightarrow> app_state \<times> localStorage" where
  "handleRegister em pw nm adm now = (\<lambda>(app, ls).
     (let users = getUsers ls;
          newUser = [(''id'', JString (toString now)),
                     (''email'', JString em),
                     (''password'', JString pw),
                     (''name'', JString nm),
                     (''isAdmin'', JBool adm)];
          users = users @ [newUser];
          ls = ls\<lparr>ls_users := Some users\<rparr>;
          userWithoutPassword = withoutPassword newUser;
          app = app\<lparr>currentUser := Some userWithoutPassword\<rparr>;
          ls = ls\<lparr>ls_currentUser := Some userWithoutPassword\<rparr>;
          app = app\<lparr>authState := Authenticated\<rparr>
      in (app, ls)))"

definition handleLogout :: "app_state \<times> localStorage \<Rightarrow> app_state \<times> localStorage" where
  "handleLogout = (\<lambda>(app, ls).
     (let app = app\<lparr>currentUser := None\<rparr>;
          ls = ls\<lparr>ls_currentUser := None\<rparr>;
          app = app\<lparr>authState := LoginState\<rparr>
      in (app, ls)))"

section \<open>Runs of the program\<close>

text \<open>
  What the program does to local storage, from a browser that holds none of the three
  keys: the first render seeds it, and then come, in any order, page loads, logins,
  registrations, logouts and visits of one of the two pages. Which page \<open>App\<close> shows, and
  for which user, follows from \<open>currentUser\<close>; the model admits either page for any user,
  which covers every run of \<open>App\<close>.
\<close>

datatype action =
    Reload int
  | Login string string
  | Register string string string bool int
  | SwitchToRegister
  | SwitchToLogin
  | Logout
  | AdminVisit user "admin_event list"
  | UserVisit user "user_event list"

fun run_action :: "env \<Rightarrow> action \<Rightarrow> app_state \<times> localStorage \<Rightarrow> app_state \<times> localStorage" where
  "run_action e (Reload now) (app, ls) = appInit e now ls"
| "run_action e (Login em pw) (app, ls) = snd (handleLogin em pw (app, ls))"
| "run_action e (Register em pw nm adm now) (app, ls) = handleRegister em pw nm adm now (app, ls)"
| "run_action e SwitchToRegister (app, ls) = (app\<lparr>authState := RegisterState\<rparr>, ls)"
| "run_action e SwitchToLogin (app, ls) = (app\<lparr>authState := LoginState\<rparr>, ls)"
| "run_action e Logout (app, ls) = handleLogout (app, ls)"
| "run_action e (AdminVisit u es) (app, ls) = (app, snd (admin_run u es ls))"
| "run_action e (UserVisit u es) (app, ls) = (app, snd (user_run e u es ls))"

definition run_program :: "env \<Rightarrow> int \<Rightarrow> action list \<Rightarrow> app_state \<times> localStorage" where
  "run_program e now acts = fold (run_action e) acts (appInit e now emptyStorage)"

definition authStateAfter :: "env \<Rightarrow> int \<Rightarrow> action list \<Rightarrow> auth_state" where
  "authStateAfter e now acts = authState (fst (run_program e now acts))"

section \<open>The properties, in the words of the specification\<close>

text \<open>A report passes a filter setting when it passes each filter that is not \<open>all\<close>.\<close>

definition matchesFilters :: "filters \<Rightarrow> report \<Rightarrow> bool" where
  "matchesFilters f r \<longleftrightarrow>
     (flt_status f = ''all'' \<or> status r = flt_status f) \<and>
     (flt_category f = ''all'' \<or> category r = flt_category f) \<and>
     (flt_district f = ''all'' \<or> district (location r) = flt_district f)"

text \<open>The status of a report is one of the three values of the enumeration.\<close>

definition validStatus :: "report \<Rightarrow> bool" where
  "validStatus r \<longleftrightarrow> status r \<in> set statusValues"

text \<open>
  A form fails validation when the title or the description is empty, when it has no
  image, or when there is neither a captured location nor an address.
\<close>

definition missingFields :: "user_state \<Rightarrow> bool" where
  "missingFields s \<longleftrightarrow>
     form_title (usr_formData s) = [] \<or> form_description (usr_formData s) = [] \<or>
     form_imageUrls (usr_formData s) = [] \<or>
     (usr_location s = None \<and> form_address (usr_formData s) = [])"




section \<open>Invariants of the runs\<close>

text \<open>While the dashboard is open, its report list and the store hold valid statuses.\<close>

definition adminInv :: "admin_state \<times> localStorage \<Rightarrow> bool" where
  "adminInv p \<longleftrightarrow>
     list_all validStatus (adm_reports (fst p)) \<and> list_all validStatus (getReports (snd p))"


section \<open>Concrete inputs\<close>

text \<open>
  The inputs of the concrete checks below: stand-ins for the two host functions, the two
  demo users as the pages receive them, a user whom the \<open>users\<close> store does not know, the
  storage after the first render, and the events that fill in the form.
\<close>

definition stubEnv :: env where
  "stubEnv = \<lparr>toISOString = toString, toFixed6 = (\<lambda>x. ''0.000000'')\<rparr>"

definition demoUser :: user where
  "demoUser =
     \<lparr>user_id = ''1'', email = ''user@demo.com'', name = ''Demo User'', isAdmin = False\<rparr>"

definition adminUser :: user where
  "adminUser =
     \<lparr>user_id = ''2'', email = ''admin@demo.com'', name = ''Admin User'', isAdmin = True\<rparr>"

definition strangerUser :: user where
  "strangerUser =
     \<lparr>user_id = ''99'', email = ''nobody@demo.com'', name = ''Nobody'', isAdmin = False\<rparr>"

definition seededStorage :: localStorage where
  "seededStorage = snd (appInit stubEnv 1757696207000 emptyStorage)"

definition fillForm :: "user_event list" where
  "fillForm =
     [InputTitle ''Broken bench'',
      InputDescription ''Bench in the park is broken'',
      FilesUploaded [''blob:photo1''],
      InputAddress ''Park Road'']"

definition freshApp :: app_state where
  "freshApp = \<lparr>authState = LoginState, currentUser = None\<rparr>"


text \<open>The page of a user after these events, on the seeded storage.\<close>

definition filledState :: "user \<Rightarrow> user_state" where
  "filledState u = fst (user_run stubEnv u fillForm seededStorage)"

section \<open>Facts about the operations\<close>

lemma getReports_update [simp]: "getReports (ls\<lparr>ls_reports := Some rs\<rparr>) = rs"
  by (simp add: getReports_def)

lemma getReports_users [simp]: "getReports (ls\<lparr>ls_users := us\<rparr>) = getReports ls"
  by (simp add: getReports_def)

lemma getUsers_simps [simp]:
  "getUsers (ls\<lparr>ls_users := Some us\<rparr>) = us"
  "getUsers (ls\<lparr>ls_currentUser := c\<rparr>) = getUsers ls"
  "getUsers (ls\<lparr>ls_reports := r\<rparr>) = getUsers ls"
  by (simp_all add: getUsers_def)

subsection \<open>The filter effect\<close>

lemma applyFilters_filter: "applyFilters f rs = filter (matchesFilters f) rs"
  by (auto simp: applyFilters_def matchesFilters_def Let_def intro: filter_cong)

lemma filterEffect_idem:
  "adm_filteredReports (filterEffect s) = applyFilters (adm_filters s) (adm_reports s)"
  by (simp add: filterEffect_def)

lemma updateReportStatus_filters:
  "adm_filters (fst (updateReportStatus u rid st d c p)) = adm_filters (fst p)"
  by (cases p) (simp add: updateReportStatus_def Let_def split: option.splits)

lemma admin_handle_filtered:
  assumes "adm_filteredReports s = applyFilters (adm_filters s) (adm_reports s)"
  shows "adm_filteredReports (fst (admin_handle u ev (s, ls))) =
           applyFilters (adm_filters (fst (admin_handle u ev (s, ls))))
                        (adm_reports (fst (admin_handle u ev (s, ls))))"
  using assms
  by (cases ev) (simp_all add: case_prod_beta filterEffect_def split: option.splits)

lemma admin_step_filtered:
  assumes "adm_filteredReports s = applyFilters (adm_filters s) (adm_reports s)"
  shows "adm_filteredReports (fst (admin_step u ev (s, ls))) =
           applyFilters (adm_filters (fst (admin_step u ev (s, ls))))
                        (adm_reports (fst (admin_step u ev (s, ls))))"
  using assms admin_handle_filtered [OF assms, of u ev ls] by (simp add: admin_step_def)

lemma admin_fold_filtered:
  "adm_filteredReports (fst p) = applyFilters (adm_filters (fst p)) (adm_reports (fst p)) \<Longrightarrow>
   adm_filteredReports (fst (fold (admin_step u) es p)) =
     applyFilters (adm_filters (fst (fold (admin_step u) es p)))
                  (adm_reports (fst (fold (admin_step u) es p)))"
proof (induction es arbitrary: p)
  case Nil
  then show ?case by simp
next
  case (Cons ev es)
  obtain s ls where p: "p = (s, ls)" by (cases p)
  with Cons.prems admin_step_filtered [of s u ev ls]
  have "adm_filteredReports (fst (admin_step u ev p)) =
          applyFilters (adm_filters (fst (admin_step u ev p))) (adm_reports (fst (admin_step u ev p)))"
    by simp
  from Cons.IH [OF this] show ?case by simp
qed

lemma admin_run_filtered:
  "adm_filteredReports (fst (admin_run u es ls)) =
     applyFilters (adm_filters (fst (admin_run u es ls))) (adm_reports (fst (admin_run u es ls)))"
  unfolding admin_run_def
  by (rule admin_fold_filtered) (simp add: adminMount_def filterEffect_def Let_def)

subsection \<open>The statistics\<close>

lemma status_partition:
  "\<forall>r \<in> set rs. status r \<in> set statusValues \<Longrightarrow>
   length rs = length (filter (\<lambda>r. status r = ''pending'') rs)
             + length (filter (\<lambda>r. status r = ''in-progress'') rs)
             + length (filter (\<lambda>r. status r = ''resolved'') rs)"
  by (induction rs) (auto simp: statusValues_def)

subsection \<open>The status update\<close>

lemma triage_fields:
  "report_id (triage u st d c r) = report_id r"
  "userId (triage u st d c r) = userId r"
  "title (triage u st d c r) = title r"
  "description (triage u st d c r) = description r"
  "category (triage u st d c r) = category r"
  "imageUrl (triage u st d c r) = imageUrl r"
  "imageUrls (triage u st d c r) = imageUrls r"
  "location (triage u st d c r) = location r"
  "timestamp (triage u st d c r) = timestamp r"
  "status (triage u st d c r) = status_str st"
  "department (triage u st d c r) = d"
  "comments (triage u st d c r) = c"
  "assignedTo (triage u st d c r) = Some (name u)"
  by (simp_all add: triage_def)

lemma updateReportStatus_reports:
  "adm_reports (fst (updateReportStatus u rid st d c (s, ls))) =
     map (\<lambda>r. if report_id r = rid then triage u st d c r else r) (adm_reports s)"
  by (simp add: updateReportStatus_def Let_def split: option.splits)

lemma updateReportStatus_store:
  "snd (updateReportStatus u rid st d c (s, ls)) =
     ls\<lparr>ls_reports :=
          Some (map (\<lambda>r. if report_id r = rid then triage u st d c r else r) (adm_reports s))\<rparr>"
  by (simp add: updateReportStatus_def Let_def split: option.splits)

lemma validStatus_triage: "validStatus (triage u st d c r)"
  by (cases st) (simp_all add: validStatus_def triage_def statusValues_def)

lemma updateReportStatus_valid:
  "adminInv (s, ls) \<Longrightarrow> adminInv (updateReportStatus u rid st d c (s, ls))"
  by (auto simp: adminInv_def updateReportStatus_def Let_def list_all_iff validStatus_triage
           split: option.splits)


subsection \<open>The submission\<close>

lemma submitReport_missing:
  "missingFields s \<Longrightarrow> \<exists>msg. submitReport e u now (s, ls) = (showAlert Error msg s, ls)"
  by (auto simp: submitReport_def missingFields_def Let_def)

lemma submitReport_ok:
  "\<not> missingFields s \<Longrightarrow> submitReport e u now (s, ls) =
     (s\<lparr>usr_reports := usr_reports s @ [newReport e u now s], usr_formData := emptyForm,
        usr_location := None,
        usr_alert := Some \<lparr>alert_type = Success, message = ''Report submitted''\<rparr>,
        usr_activeTab := TabMyReports\<rparr>,
      ls\<lparr>ls_reports := Some (getReports ls @ [newReport e u now s])\<rparr>)"
  by (auto simp: submitReport_def missingFields_def Let_def showAlert_def)

lemma validStatus_newReport: "validStatus (newReport e u now s)"
  by (simp add: validStatus_def newReport_def statusValues_def Let_def)

lemma submitReport_valid:
  "list_all validStatus (getReports ls) \<Longrightarrow>
   list_all validStatus (getReports (snd (submitReport e u now (s, ls))))"
  by (auto simp: submitReport_def Let_def validStatus_newReport)


subsection \<open>Visits of the two pages\<close>

lemma adminInv_filterEffect: "adminInv (filterEffect (fst p), snd p) = adminInv p"
  by (simp add: adminInv_def filterEffect_def)

lemma admin_handle_valid:
  assumes "adminInv (s, ls)"
  shows "adminInv (admin_handle u ev (s, ls))"
proof (cases ev)
  case MarkInProgress
  with assms show ?thesis
    by (simp add: case_prod_beta adminInv_filterEffect updateReportStatus_valid
             split: option.splits)
next
  case MarkResolved
  with assms show ?thesis
    by (simp add: case_prod_beta adminInv_filterEffect updateReportStatus_valid
             split: option.splits)
qed (use assms in \<open>auto simp: adminInv_def filterEffect_def\<close>)

lemma admin_step_valid:
  assumes "adminInv (s, ls)"
  shows "adminInv (admin_step u ev (s, ls))"
  using assms admin_handle_valid [OF assms, of u ev] by (simp add: admin_step_def)

lemma admin_fold_valid: "adminInv p \<Longrightarrow> adminInv (fold (admin_step u) es p)"
proof (induction es arbitrary: p)
  case Nil
  then show ?case by simp
next
  case (Cons ev es)
  obtain s ls where p: "p = (s, ls)" by (cases p)
  with Cons.prems have "adminInv (admin_step u ev p)" using admin_step_valid by simp
  from Cons.IH [OF this] show ?case by simp
qed

lemma admin_run_valid:
  assumes "list_all validStatus (getReports ls)"
  shows "list_all validStatus (getReports (snd (admin_run u es ls)))"
proof -
  from assms have "adminInv (adminMount ls, ls)"
    by (simp add: adminInv_def adminMount_def filterEffect_def Let_def)
  from admin_fold_valid [OF this, of u es] show ?thesis
    by (simp add: admin_run_def adminInv_def)
qed




lemma admin_handle_tab:
  "adm_activeTab s \<in> set tabTriggers \<Longrightarrow>
   adm_activeTab (fst (admin_handle u ev (s, ls))) \<in> set tabTriggers"
  by (cases ev)
     (auto simp: filterEffect_def updateReportStatus_def Let_def tabTriggers_def
           split: option.splits)

lemma admin_step_tab:
  "adm_activeTab s \<in> set tabTriggers \<Longrightarrow>
   adm_activeTab (fst (admin_step u ev (s, ls))) \<in> set tabTriggers"
  using admin_handle_tab [of s u ev ls] by (simp add: admin_step_def)

lemma admin_fold_tab:
  "adm_activeTab (fst p) \<in> set tabTriggers \<Longrightarrow>
   adm_activeTab (fst (fold (admin_step u) es p)) \<in> set tabTriggers"
proof (induction es arbitrary: p)
  case Nil
  then show ?case by simp
next
  case (Cons ev es)
  obtain s ls where p: "p = (s, ls)" by (cases p)
  with Cons.prems have "adm_activeTab (fst (admin_step u ev p)) \<in> set tabTriggers"
    using admin_step_tab by simp
  from Cons.IH [OF this] show ?case by simp
qed

lemma adminTabAfter_in: "adminTabAfter u ls es \<in> set tabTriggers"
proof -
  have "adm_activeTab (fst (adminMount ls, ls)) \<in> set tabTriggers"
    by (simp add: adminMount_def filterEffect_def Let_def tabTriggers_def)
  from admin_fold_tab [OF this] show ?thesis by (simp add: adminTabAfter_def admin_run_def)
qed

lemma adminTabAfter_click: "t \<in> set tabTriggers \<Longrightarrow> adminTabAfter u ls [TabChange t] = t"
  by (simp add: adminTabAfter_def admin_run_def admin_step_def)

lemma userTabAfter_click: "userTabAfter e u ls [TabClick t] = t"
  by (simp add: userTabAfter_def user_run_def user_step_def)

lemma user_tab_UNIV: "(UNIV :: user_tab set) = {TabReport, TabMyReports}"
  using user_tab.exhaust by auto

lemma user_step_Submit:
  "usr_activeTab (fst p) = TabReport \<Longrightarrow> user_step e u (Submit now) p = submitReport e u now p"
  by (cases p) (simp add: user_step_def)

lemma user_handle_valid:
  "list_all validStatus (getReports ls) \<Longrightarrow>
   list_all validStatus (getReports (snd (user_handle e u ev (s, ls))))"
  by (cases ev) (simp_all add: Let_def submitReport_valid)

lemma user_step_valid:
  "list_all validStatus (getReports ls) \<Longrightarrow>
   list_all validStatus (getReports (snd (user_step e u ev (s, ls))))"
  using user_handle_valid [of ls e u ev s] by (simp add: user_step_def)

lemma user_fold_valid:
  "list_all validStatus (getReports (snd p)) \<Longrightarrow>
   list_all validStatus (getReports (snd (fold (user_step e u) es p)))"
proof (induction es arbitrary: p)
  case Nil
  then show ?case by simp
next
  case (Cons ev es)
  obtain s ls where p: "p = (s, ls)" by (cases p)
  with Cons.prems have "list_all validStatus (getReports (snd (user_step e u ev p)))"
    using user_step_valid by simp
  from Cons.IH [OF this] show ?case by simp
qed




lemma user_handle_own:
  assumes "usr_reports s = filter (\<lambda>r. userId r = user_id u) (getReports ls)"
  shows "usr_reports (fst (user_handle e u ev (s, ls))) =
         filter (\<lambda>r. userId r = user_id u) (getReports (snd (user_handle e u ev (s, ls))))"
proof (cases ev)
  case (Submit now)
  show ?thesis
  proof (cases "missingFields s")
    case True
    then obtain msg where "submitReport e u now (s, ls) = (showAlert Error msg s, ls)"
      using submitReport_missing by blast
    with assms Submit show ?thesis by (simp add: showAlert_def)
  next
    case False
    with assms Submit show ?thesis by (simp add: submitReport_ok newReport_def Let_def)
  qed
qed (use assms in \<open>simp_all add: setFormData_def showAlert_def Let_def\<close>)

lemma user_step_own:
  assumes "usr_reports s = filter (\<lambda>r. userId r = user_id u) (getReports ls)"
  shows "usr_reports (fst (user_step e u ev (s, ls))) =
         filter (\<lambda>r. userId r = user_id u) (getReports (snd (user_step e u ev (s, ls))))"
  using assms user_handle_own [OF assms, of e ev] by (simp add: user_step_def)

lemma user_fold_own:
  "usr_reports s = filter (\<lambda>r. userId r = user_id u) (getReports ls) \<Longrightarrow>
   usr_reports (fst (fold (user_step e u) es (s, ls))) =
     filter (\<lambda>r. userId r = user_id u) (getReports (snd (fold (user_step e u) es (s, ls))))"
proof (induction es arbitrary: s ls)
  case Nil
  then show ?case by simp
next
  case (Cons ev es)
  obtain s1 ls1 where st: "user_step e u ev (s, ls) = (s1, ls1)"
    by (cases "user_step e u ev (s, ls)")
  from user_step_own [OF Cons.prems, of e ev] st
  have "usr_reports s1 = filter (\<lambda>r. userId r = user_id u) (getReports ls1)" by simp
  from Cons.IH [OF this] st show ?case by simp
qed

subsection \<open>Seeding, login, registration, logout\<close>

lemma demoReports_valid: "list_all validStatus (demoReports e now)"
  by (simp add: demoReports_def validStatus_def statusValues_def)

lemma appInit_valid:
  "ls_reports ls = None \<or> list_all validStatus (getReports ls) \<Longrightarrow>
   list_all validStatus (getReports (snd (appInit e now ls)))"
  by (auto simp: appInit_def Let_def demoReports_valid getReports_def split: option.splits)

lemma handleLogin_reports:
  "ls_reports (snd (snd (handleLogin em pw (app, ls)))) = ls_reports ls"
  by (simp add: handleLogin_def Let_def split: option.splits)

lemma handleRegister_reports:
  "ls_reports (snd (handleRegister em pw nm adm now (app, ls))) = ls_reports ls"
  by (simp add: handleRegister_def Let_def)

lemma handleLogout_reports: "ls_reports (snd (handleLogout (app, ls))) = ls_reports ls"
  by (simp add: handleLogout_def Let_def)







lemma handleRegister_eq:
  "handleRegister em pw nm adm now (app, ls) =
     (app\<lparr>currentUser := Some [(''id'', JString (toString now)), (''email'', JString em),
                                (''name'', JString nm), (''isAdmin'', JBool adm)],
          authState := Authenticated\<rparr>,
      ls\<lparr>ls_users := Some (getUsers ls @
              [[(''id'', JString (toString now)), (''email'', JString em),
                (''password'', JString pw), (''name'', JString nm), (''isAdmin'', JBool adm)]]),
         ls_currentUser := Some [(''id'', JString (toString now)), (''email'', JString em),
                                 (''name'', JString nm), (''isAdmin'', JBool adm)]\<rparr>)"
  by (simp add: handleRegister_def Let_def withoutPassword_def)






subsection \<open>Runs of the program\<close>

lemma run_action_valid:
  assumes "list_all validStatus (getReports ls)"
  shows "list_all validStatus (getReports (snd (run_action e a (app, ls))))"
proof (cases a)
  case (Reload now)
  with assms show ?thesis by (simp add: appInit_valid)
next
  case (Login em pw)
  with assms handleLogin_reports [of em pw app ls] show ?thesis by (simp add: getReports_def)
next
  case (Register em pw nm adm now)
  with assms handleRegister_reports [of em pw nm adm now app ls] show ?thesis
    by (simp add: getReports_def)
next
  case Logout
  with assms handleLogout_reports [of app ls] show ?thesis by (simp add: getReports_def)
next
  case (AdminVisit u es)
  with assms show ?thesis by (simp add: admin_run_valid)
next
  case (UserVisit u es)
  with assms user_fold_valid [of "(userMount u ls, ls)" e u es] show ?thesis
    by (simp add: user_run_def)
qed (use assms in simp_all)

lemma run_fold_valid:
  "list_all validStatus (getReports (snd p)) \<Longrightarrow>
   list_all validStatus (getReports (snd (fold (run_action e) acts p)))"
proof (induction acts arbitrary: p)
  case Nil
  then show ?case by simp
next
  case (Cons a acts)
  obtain app ls where p: "p = (app, ls)" by (cases p)
  with Cons.prems have "list_all validStatus (getReports (snd (run_action e a p)))"
    using run_action_valid by simp
  from Cons.IH [OF this] show ?case by simp
qed

lemma run_program_valid: "list_all validStatus (getReports (snd (run_program e now acts)))"
proof -
  have "list_all validStatus (getReports (snd (appInit e now emptyStorage)))"
    by (rule appInit_valid) (simp add: emptyStorage_def)
  from run_fold_valid [OF this, of e acts] show ?thesis by (simp add: run_program_def)
qed




lemma auth_state_UNIV: "(UNIV :: auth_state set) = {LoginState, RegisterState, Authenticated}"
  using auth_state.exhaust by auto

lemma authState_appInit_empty: "authState (fst (appInit e now emptyStorage)) = LoginState"
  by (simp add: appInit_def emptyStorage_def Let_def)

lemma authStateAfter_start: "authStateAfter e now [] = LoginState"
  by (simp add: authStateAfter_def run_program_def authState_appInit_empty)

lemma authStateAfter_switch: "authStateAfter e now [SwitchToRegister] = RegisterState"
  by (cases "appInit e now emptyStorage") (simp add: authStateAfter_def run_program_def)

lemma authStateAfter_register:
  "authStateAfter e now
     [SwitchToRegister, Register ''new@demo.com'' ''secret'' ''New User'' False now]
   = Authenticated"
  by (cases "appInit e now emptyStorage")
     (simp add: authStateAfter_def run_program_def handleRegister_eq)

subsection \<open>The concrete inputs, evaluated\<close>

lemma seededStorage_eq:
  "seededStorage =
     \<lparr>ls_users = Some demoUsers, ls_reports = Some (demoReports stubEnv 1757696207000),
      ls_currentUser = None\<rparr>"
  by (simp add: seededStorage_def appInit_def emptyStorage_def Let_def)

lemma filledState_eq:
  "filledState u =
     \<lparr>usr_activeTab = TabReport,
      usr_reports = filter (\<lambda>r. userId r = user_id u) (demoReports stubEnv 1757696207000),
      usr_formData = emptyForm\<lparr>form_title := ''Broken bench'',
        form_description := ''Bench in the park is broken'',
        form_imageUrls := [''blob:photo1''], form_address := ''Park Road''\<rparr>,
      usr_location = None,
      usr_alert = Some \<lparr>alert_type = Success, message = ''Image(s) uploaded''\<rparr>\<rparr>"
  by (simp add: filledState_def user_run_def user_step_def fillForm_def userMount_def Let_def
      setFormData_def showAlert_def seededStorage_eq getReports_def emptyForm_def)

lemma filled_run: "user_run stubEnv u fillForm seededStorage = (filledState u, seededStorage)"
proof -
  have "snd (user_run stubEnv u fillForm seededStorage) = seededStorage"
    by (simp add: user_run_def user_step_def userMount_def fillForm_def Let_def setFormData_def
        showAlert_def)
  then show ?thesis by (simp add: filledState_def prod_eq_iff)
qed

lemma filled_not_missing: "\<not> missingFields (filledState u)"
  by (simp add: filledState_eq missingFields_def emptyForm_def)

lemma filled_tab: "usr_activeTab (filledState u) = TabReport"
  by (simp add: filledState_eq)

lemma submit_filled:
  "user_run stubEnv u (fillForm @ [Submit now]) seededStorage =
     submitReport stubEnv u now (filledState u, seededStorage)"
  by (simp add: user_run_def filled_run [unfolded user_run_def] user_step_def filled_tab)

lemma getReports_seeded: "getReports seededStorage = demoReports stubEnv 1757696207000"
  by (simp add: seededStorage_eq getReports_def)

lemma submit_filled_eq:
  "user_run stubEnv u (fillForm @ [Submit now]) seededStorage =
     ((filledState u)\<lparr>usr_reports := usr_reports (filledState u)
                          @ [newReport stubEnv u now (filledState u)],
        usr_formData := emptyForm, usr_location := None,
        usr_alert := Some \<lparr>alert_type = Success, message = ''Report submitted''\<rparr>,
        usr_activeTab := TabMyReports\<rparr>,
      seededStorage\<lparr>ls_reports := Some (demoReports stubEnv 1757696207000
                          @ [newReport stubEnv u now (filledState u)])\<rparr>)"
  unfolding submit_filled submitReport_ok [OF filled_not_missing] getReports_seeded ..

lemma appInit_seed: "appInit stubEnv 1757696207000 emptyStorage = (freshApp, seededStorage)"
  by (simp add: seededStorage_def appInit_def emptyStorage_def freshApp_def Let_def)

lemma toString_sample: "toString 1757696300000 = ''1757696300000''"
  by (simp add: toString_def digits.simps)

section \<open>The claims\<close>

text \<open>
  C1. Admin dashboard filtering is correct: for every list of reports and every filter
  setting, the filtered list holds exactly the reports that satisfy every filter whose
  value is not \<open>all\<close> (status against \<open>report.status\<close>, category against
  \<open>report.category\<close>, district against \<open>report.location.district\<close>), a filter set to
  \<open>all\<close> lets every report pass, and the reports that remain keep their relative order.
  The last conjunct says that the list the dashboard shows is this filtered list after
  every sequence of events.
\<close>

theorem applyFilters_correct:
  "applyFilters f rs = filter (matchesFilters f) rs \<and>
   (\<forall>r. r \<in> set (applyFilters f rs) \<longleftrightarrow> r \<in> set rs \<and> matchesFilters f r) \<and>
   subseq (applyFilters f rs) rs \<and>
   adm_filteredReports (fst (admin_run u es ls)) =
     filter (matchesFilters (adm_filters (fst (admin_run u es ls))))
            (adm_reports (fst (admin_run u es ls)))"
  using admin_run_filtered [of u es ls] by (simp add: applyFilters_filter)

theorem applyFilters_correct_witness:
  "map report_id
     (applyFilters \<lparr>flt_status = ''all'', flt_category = ''streetlight'',
                    flt_district = ''New Delhi''\<rparr> (demoReports stubEnv 0)) = [''2'']"
  using applyFilters_correct
          [of "\<lparr>flt_status = ''all'', flt_category = ''streetlight'',
                flt_district = ''New Delhi''\<rparr>" "demoReports stubEnv 0" adminUser "[]"
              seededStorage]
  by (simp add: matchesFilters_def demoReports_def)

text \<open>
  C2. Report status is a closed three-value enumeration: every report in the store that
  any run of the program leaves behind has a status among \<open>pending\<close>, \<open>in-progress\<close>,
  \<open>resolved\<close>. So have the seeded demo reports, the report \<open>submitReport\<close> builds (it is
  \<open>pending\<close>) and the report \<open>updateReportStatus\<close> rewrites.
\<close>

theorem report_status_closed:
  "(\<forall>r \<in> set (getReports (snd (run_program e now acts))). status r \<in> set statusValues) \<and>
   (\<forall>r \<in> set (demoReports e now). status r \<in> set statusValues) \<and>
   status (newReport e u t s) = ''pending'' \<and>
   status (triage u st d c r) \<in> set statusValues"
  using run_program_valid [of e now acts] demoReports_valid [of e now]
        validStatus_triage [of u st d c r]
  by (simp add: list_all_iff validStatus_def newReport_def Let_def)

theorem report_status_closed_witness:
  "map status (getReports (snd (run_program stubEnv 1757696207000
      [UserVisit demoUser (fillForm @ [Submit 1757696300000]),
       AdminVisit adminUser [TabChange ''reports'', SelectCard 0, MarkResolved]])))
     = [''resolved'', ''in-progress'', ''pending''] \<and>
   set (map status (getReports (snd (run_program stubEnv 1757696207000
      [UserVisit demoUser (fillForm @ [Submit 1757696300000]),
       AdminVisit adminUser [TabChange ''reports'', SelectCard 0, MarkResolved]])))) \<subseteq> set statusValues"
proof -
  have "map status (getReports (snd (run_action stubEnv
            (AdminVisit adminUser [TabChange ''reports'', SelectCard 0, MarkResolved])
            (freshApp, snd (user_run stubEnv demoUser (fillForm @ [Submit 1757696300000])
                              seededStorage)))))
        = [''resolved'', ''in-progress'', ''pending'']"
    by (simp add: submit_filled_eq demoReports_def newReport_def admin_run_def admin_step_def
        adminMount_def filterEffect_def applyFilters_def Let_def updateReportStatus_def
        triage_def tabTriggers_def toString_sample)
  then have "map status (getReports (snd (run_program stubEnv 1757696207000
      [UserVisit demoUser (fillForm @ [Submit 1757696300000]),
       AdminVisit adminUser [TabChange ''reports'', SelectCard 0, MarkResolved]])))
     = [''resolved'', ''in-progress'', ''pending'']"
    by (simp add: run_program_def appInit_seed)
  with report_status_closed
         [of stubEnv 1757696207000
             "[UserVisit demoUser (fillForm @ [Submit 1757696300000]),
               AdminVisit adminUser [TabChange ''reports'', SelectCard 0, MarkResolved]]"]
  show ?thesis by auto
qed

text \<open>
  C3. \<open>updateReportStatus\<close> touches only the targeted report and only its triage
  fields: the list keeps its length, every report whose id differs from \<open>reportId\<close> is
  unchanged, and a report whose id equals \<open>reportId\<close> gets the new status, department and
  comments and the administrator's name in \<open>assignedTo\<close>, while its id, userId, title,
  description, category, image, location and timestamp stay as they were. The list is
  what is written to the store, whose other two keys are untouched.
\<close>

theorem updateReportStatus_frame:
  "case updateReportStatus u rid st d c (s, ls) of (s', ls') \<Rightarrow>
     length (adm_reports s') = length (adm_reports s) \<and>
     ls_reports ls' = Some (adm_reports s') \<and>
     ls_users ls' = ls_users ls \<and> ls_currentUser ls' = ls_currentUser ls \<and>
     (\<forall>i < length (adm_reports s).
        (report_id (adm_reports s ! i) \<noteq> rid \<longrightarrow> adm_reports s' ! i = adm_reports s ! i) \<and>
        (report_id (adm_reports s ! i) = rid \<longrightarrow>
           status (adm_reports s' ! i) = status_str st \<and>
           department (adm_reports s' ! i) = d \<and>
           comments (adm_reports s' ! i) = c \<and>
           assignedTo (adm_reports s' ! i) = Some (name u) \<and>
           report_id (adm_reports s' ! i) = report_id (adm_reports s ! i) \<and>
           userId (adm_reports s' ! i) = userId (adm_reports s ! i) \<and>
           title (adm_reports s' ! i) = title (adm_reports s ! i) \<and>
           description (adm_reports s' ! i) = description (adm_reports s ! i) \<and>
           category (adm_reports s' ! i) = category (adm_reports s ! i) \<and>
           imageUrl (adm_reports s' ! i) = imageUrl (adm_reports s ! i) \<and>
           imageUrls (adm_reports s' ! i) = imageUrls (adm_reports s ! i) \<and>
           location (adm_reports s' ! i) = location (adm_reports s ! i) \<and>
           timestamp (adm_reports s' ! i) = timestamp (adm_reports s ! i)))"
  by (simp add: case_prod_beta updateReportStatus_reports updateReportStatus_store
      triage_fields)

theorem updateReportStatus_frame_witness:
  "case updateReportStatus adminUser ''1'' Resolved (Some ''Public Works'')
          (Some ''Issue resolved successfully'') (adminMount seededStorage, seededStorage) of
     (s', ls') \<Rightarrow>
       (1::nat) < length (adm_reports (adminMount seededStorage)) \<and>
       report_id (adm_reports (adminMount seededStorage) ! 0) = ''1'' \<and>
       report_id (adm_reports (adminMount seededStorage) ! 1) \<noteq> ''1'' \<and>
       status (adm_reports s' ! 0) = ''resolved'' \<and>
       assignedTo (adm_reports s' ! 0) = Some ''Admin User'' \<and>
       title (adm_reports s' ! 0) = ''Large Pothole on Main Street'' \<and>
       adm_reports s' ! 1 = adm_reports (adminMount seededStorage) ! 1 \<and>
       ls_reports ls' = Some (adm_reports s')"
proof -
  have rs: "adm_reports (adminMount seededStorage) = demoReports stubEnv 1757696207000"
    by (simp add: adminMount_def filterEffect_def Let_def getReports_seeded)
  have ids: "(1::nat) < length (adm_reports (adminMount seededStorage)) \<and>
             report_id (adm_reports (adminMount seededStorage) ! 0) = ''1'' \<and>
             report_id (adm_reports (adminMount seededStorage) ! 1) \<noteq> ''1'' \<and>
             title (adm_reports (adminMount seededStorage) ! 0) = ''Large Pothole on Main Street''"
    by (simp add: rs demoReports_def)
  note frame = updateReportStatus_frame
         [where u = adminUser and rid = "''1''" and st = Resolved
            and d = "Some ''Public Works''" and c = "Some ''Issue resolved successfully''"
            and s = "adminMount seededStorage" and ls = seededStorage,
          unfolded case_prod_beta]
  note each = frame [THEN conjunct2, THEN conjunct2, THEN conjunct2, THEN conjunct2,
                     rule_format]
  have len: "0 < length (adm_reports (adminMount seededStorage))"
            "1 < length (adm_reports (adminMount seededStorage))"
    by (simp_all add: rs demoReports_def)
  from ids each [OF len(1)] each [OF len(2)] frame [THEN conjunct2, THEN conjunct1]
  show ?thesis
    by (simp add: case_prod_beta adminUser_def)
qed

text \<open>
  C4. A submission with missing fields only raises an alert. When the title or the
  description is empty, or there is no image, or there is neither a captured location nor
  an address, \<open>submitReport\<close> sets an error alert and leaves the store, the user's report
  list and the form (and the location and the tab) as they were. Otherwise it appends the
  new report to the store and to the user's list. So a report is appended exactly when no
  check fails.
\<close>

theorem submitReport_validation_atomic:
  "case submitReport e u now (s, ls) of (s', ls') \<Rightarrow>
     (missingFields s \<longrightarrow>
        ls' = ls \<and> usr_reports s' = usr_reports s \<and> usr_formData s' = usr_formData s \<and>
        usr_location s' = usr_location s \<and> usr_activeTab s' = usr_activeTab s \<and>
        (\<exists>msg. usr_alert s' = Some \<lparr>alert_type = Error, message = msg\<rparr>)) \<and>
     (\<not> missingFields s \<longrightarrow>
        ls_reports ls' = Some (getReports ls @ [newReport e u now s]) \<and>
        usr_reports s' = usr_reports s @ [newReport e u now s]) \<and>
     (getReports ls' = getReports ls @ [newReport e u now s] \<longleftrightarrow> \<not> missingFields s)"
proof (cases "missingFields s")
  case True
  then obtain msg where "submitReport e u now (s, ls) = (showAlert Error msg s, ls)"
    using submitReport_missing by blast
  with True show ?thesis by (auto simp: showAlert_def)
next
  case False
  then show ?thesis by (simp add: submitReport_ok)
qed

theorem submitReport_validation_atomic_witness:
  "missingFields (userMount demoUser seededStorage) \<and>
   snd (submitReport stubEnv demoUser 1757696300000 (userMount demoUser seededStorage, seededStorage))
     = seededStorage \<and>
   usr_reports (fst (submitReport stubEnv demoUser 1757696300000
                       (userMount demoUser seededStorage, seededStorage)))
     = usr_reports (userMount demoUser seededStorage) \<and>
   \<not> missingFields (filledState demoUser) \<and>
   length (getReports (snd (submitReport stubEnv demoUser 1757696300000
                              (filledState demoUser, seededStorage)))) = 3"
proof -
  have a: "missingFields (userMount demoUser seededStorage)"
    by (simp add: missingFields_def userMount_def emptyForm_def Let_def)
  have b: "\<not> missingFields (filledState demoUser)" by (rule filled_not_missing)
  from a submitReport_validation_atomic
         [where e = stubEnv and u = demoUser and now = 1757696300000
            and s = "userMount demoUser seededStorage" and ls = seededStorage]
  have 1: "snd (submitReport stubEnv demoUser 1757696300000
                  (userMount demoUser seededStorage, seededStorage)) = seededStorage \<and>
           usr_reports (fst (submitReport stubEnv demoUser 1757696300000
                  (userMount demoUser seededStorage, seededStorage)))
             = usr_reports (userMount demoUser seededStorage)"
    by (simp add: case_prod_beta)
  from b submitReport_validation_atomic
         [where e = stubEnv and u = demoUser and now = 1757696300000
            and s = "filledState demoUser" and ls = seededStorage]
  have "getReports (snd (submitReport stubEnv demoUser 1757696300000
                           (filledState demoUser, seededStorage)))
          = getReports seededStorage @ [newReport stubEnv demoUser 1757696300000 (filledState demoUser)]"
    by (simp add: case_prod_beta)
  then have 2: "length (getReports (snd (submitReport stubEnv demoUser 1757696300000
                              (filledState demoUser, seededStorage)))) = 3"
    by (simp add: getReports_seeded demoReports_def)
  from a b 1 2 show ?thesis by simp
qed

text \<open>
  C5. The claim is that a report stored by the citizen's submission has the shape the
  dashboard reads, and in particular the \<open>imageUrl\<close> key. The code stores \<open>imageUrls\<close> and
  no \<open>imageUrl\<close>: for every submission the new report has no \<open>imageUrl\<close>, and after the
  demo user files one report with one photo, the dashboard's list of recent reports has
  an image for the two seeded reports and none for the third.
\<close>

theorem submitReport_omits_imageUrl:
  "imageUrl (newReport e u now s) = None \<and>
   imageUrls (newReport e u now s) = Some (form_imageUrls (usr_formData s)) \<and>
   length (recentReportImages (adminMount (snd (user_run stubEnv demoUser
      (fillForm @ [Submit 1757696300000]) seededStorage)))) = 3 \<and>
   recentReportImages (adminMount (snd (user_run stubEnv demoUser
      (fillForm @ [Submit 1757696300000]) seededStorage))) ! 0 \<noteq> None \<and>
   recentReportImages (adminMount (snd (user_run stubEnv demoUser
      (fillForm @ [Submit 1757696300000]) seededStorage))) ! 1 \<noteq> None \<and>
   recentReportImages (adminMount (snd (user_run stubEnv demoUser
      (fillForm @ [Submit 1757696300000]) seededStorage))) ! 2 = None \<and>
   imageUrls (getReports (snd (user_run stubEnv demoUser
      (fillForm @ [Submit 1757696300000]) seededStorage)) ! 2) = Some [''blob:photo1'']"
  by (simp add: submit_filled_eq recentReportImages_def adminMount_def filterEffect_def Let_def
      demoReports_def newReport_def filledState_eq)

text \<open>
  C6. The dashboard statistics partition the report list: when every report has one of
  the three statuses, \<open>total\<close> is the length of the list, each of \<open>pending\<close>,
  \<open>inProgress\<close> and \<open>resolved\<close> is the number of reports with that status, and \<open>total\<close> is
  their sum.
\<close>

theorem getDashboardStats_partition:
  assumes "\<forall>r \<in> set (adm_reports s). status r \<in> set statusValues"
  shows "total_count (getDashboardStats s) = length (adm_reports s) \<and>
         pending (getDashboardStats s)
           = length (filter (\<lambda>r. status r = ''pending'') (adm_reports s)) \<and>
         inProgress (getDashboardStats s)
           = length (filter (\<lambda>r. status r = ''in-progress'') (adm_reports s)) \<and>
         resolved (getDashboardStats s)
           = length (filter (\<lambda>r. status r = ''resolved'') (adm_reports s)) \<and>
         total_count (getDashboardStats s)
           = pending (getDashboardStats s) + inProgress (getDashboardStats s)
             + resolved (getDashboardStats s)"
  using status_partition [OF assms] by (simp add: getDashboardStats_def Let_def)

theorem getDashboardStats_partition_witness:
  "set (map status (adm_reports (adminMount seededStorage))) \<subseteq> set statusValues \<and>
   getDashboardStats (adminMount seededStorage)
     = \<lparr>total_count = 2, pending = 1, inProgress = 1, resolved = 0\<rparr>"
proof -
  have rs: "adm_reports (adminMount seededStorage) = demoReports stubEnv 1757696207000"
    by (simp add: adminMount_def filterEffect_def Let_def getReports_seeded)
  have h: "\<forall>r \<in> set (adm_reports (adminMount seededStorage)). status r \<in> set statusValues"
    by (simp add: rs demoReports_def statusValues_def)
  from getDashboardStats_partition [OF h] h show ?thesis
    by (simp add: rs demoReports_def statusValues_def)
qed

text \<open>
  C7. No referential integrity at the time a report is written: for every user and every
  form that passes validation, \<open>submitReport\<close> appends a report with that user's id
  whatever the \<open>users\<close> store holds. In particular, after a user whose id is in no stored
  user object submits on the seeded storage, a stored report has a \<open>userId\<close> that matches
  no stored user.
\<close>

theorem submitReport_no_referential_integrity:
  "(\<not> missingFields s \<longrightarrow>
      (\<forall>us. ls_reports (snd (submitReport e u now (s, ls\<lparr>ls_users := us\<rparr>)))
             = Some (getReports ls @ [newReport e u now s])) \<and>
      userId (newReport e u now s) = user_id u) \<and>
   (\<exists>r \<in> set (getReports (snd (user_run stubEnv strangerUser
                 (fillForm @ [Submit 1757696300000]) seededStorage))).
      \<forall>usr \<in> set (getUsers (snd (user_run stubEnv strangerUser
                 (fillForm @ [Submit 1757696300000]) seededStorage))).
        get usr ''id'' \<noteq> Some (JString (userId r)))"
proof -
  have a: "\<not> missingFields s \<longrightarrow>
      (\<forall>us. ls_reports (snd (submitReport e u now (s, ls\<lparr>ls_users := us\<rparr>)))
             = Some (getReports ls @ [newReport e u now s])) \<and>
      userId (newReport e u now s) = user_id u"
    by (simp add: submitReport_ok newReport_def Let_def)
  have b: "\<exists>r \<in> set (getReports (snd (user_run stubEnv strangerUser
                 (fillForm @ [Submit 1757696300000]) seededStorage))).
      \<forall>usr \<in> set (getUsers (snd (user_run stubEnv strangerUser
                 (fillForm @ [Submit 1757696300000]) seededStorage))).
        get usr ''id'' \<noteq> Some (JString (userId r))"
    unfolding submit_filled_eq
    by (simp add: seededStorage_eq getReports_def getUsers_def newReport_def Let_def
        demoReports_def demoUsers_def get_def strangerUser_def)
  from a b show ?thesis by (rule conjI)
qed

theorem submitReport_no_referential_integrity_witness:
  "\<not> missingFields (filledState strangerUser) \<and>
   map userId (getReports (snd (submitReport stubEnv strangerUser 1757696300000
       (filledState strangerUser, seededStorage\<lparr>ls_users := Some []\<rparr>))))
     = [''1'', ''1'', ''99'']"
proof -
  have h: "\<not> missingFields (filledState strangerUser)" by (rule filled_not_missing)
  from submitReport_no_referential_integrity
         [where s = "filledState strangerUser" and e = stubEnv and u = strangerUser
            and now = 1757696300000 and ls = seededStorage, THEN conjunct1, rule_format, OF h]
  have "ls_reports (snd (submitReport stubEnv strangerUser 1757696300000
           (filledState strangerUser, seededStorage\<lparr>ls_users := Some []\<rparr>)))
        = Some (getReports seededStorage
                @ [newReport stubEnv strangerUser 1757696300000 (filledState strangerUser)])"
    by blast
  with h show ?thesis
    by (simp add: getReports_def seededStorage_eq demoReports_def newReport_def Let_def
        strangerUser_def)
qed

text \<open>
  C8, as stated: in every view component the \<open>activeTab\<close> variable takes at most three
  distinct values. The dashboard has four tabs, and four runs end on four different ones.
\<close>

theorem activeTab_three_values_counterexample:
  "\<not> card (set (map (adminTabAfter adminUser seededStorage)
        [[], [TabChange ''reports''], [TabChange ''map''], [TabChange ''analytics'']])) \<le> 3"
  by (simp add: adminTabAfter_def admin_run_def admin_step_def adminMount_def filterEffect_def
      Let_def tabTriggers_def)

text \<open>
  C8, amended. The tab selector of the dashboard ranges over exactly the four values
  \<open>dashboard\<close>, \<open>reports\<close>, \<open>map\<close> and \<open>analytics\<close>, and that of the citizen's page over
  exactly the two values \<open>report\<close> and \<open>myReports\<close>: whatever the events and the storage,
  \<open>activeTab\<close> is one of these, and each of them is reached. The tab selectors are not
  the only state machine of the program: \<open>authState\<close> of \<open>App\<close> ranges over exactly the
  three values \<open>login\<close>, \<open>register\<close> and \<open>authenticated\<close>, and each of them is reached.
\<close>

theorem state_variable_ranges:
  "range (adminTabAfter u ls) = {''dashboard'', ''reports'', ''map'', ''analytics''} \<and>
   card (range (adminTabAfter u ls)) = 4 \<and>
   range (userTabAfter e u' ls') = {TabReport, TabMyReports} \<and>
   card (range (userTabAfter e u' ls')) = 2 \<and>
   range (authStateAfter e' now) = {LoginState, RegisterState, Authenticated} \<and>
   card (range (authStateAfter e' now)) = 3"
proof -
  have a: "range (adminTabAfter u ls) = set tabTriggers"
  proof
    show "range (adminTabAfter u ls) \<subseteq> set tabTriggers" using adminTabAfter_in by auto
    show "set tabTriggers \<subseteq> range (adminTabAfter u ls)"
    proof
      fix t assume "t \<in> set tabTriggers"
      then have "adminTabAfter u ls [TabChange t] = t" by (rule adminTabAfter_click)
      then show "t \<in> range (adminTabAfter u ls)" by (metis rangeI)
    qed
  qed
  have b: "range (userTabAfter e u' ls') = UNIV"
  proof -
    have "t \<in> range (userTabAfter e u' ls')" for t
      using userTabAfter_click [of e u' ls' t] by (metis rangeI)
    then show ?thesis by auto
  qed
  have c: "range (authStateAfter e' now) = UNIV"
  proof -
    have "t \<in> range (authStateAfter e' now)" for t
    proof (cases t)
      case LoginState
      with authStateAfter_start [of e' now] show ?thesis by (metis rangeI)
    next
      case RegisterState
      with authStateAfter_switch [of e' now] show ?thesis by (metis rangeI)
    next
      case Authenticated
      with authStateAfter_register [of e' now] show ?thesis by (metis rangeI)
    qed
    then show ?thesis by auto
  qed
  show ?thesis unfolding a b c user_tab_UNIV auth_state_UNIV by (simp add: tabTriggers_def)
qed

theorem state_variable_ranges_witness:
  "adminTabAfter adminUser seededStorage [ViewRecent 0, TabChange ''map'']
     \<in> {''dashboard'', ''reports'', ''map'', ''analytics''} \<and>
   card (range (adminTabAfter adminUser seededStorage)) = 4 \<and>
   card (range (userTabAfter stubEnv demoUser seededStorage)) = 2 \<and>
   authStateAfter stubEnv 1757696207000 [SwitchToRegister]
     \<in> {LoginState, RegisterState, Authenticated} \<and>
   card (range (authStateAfter stubEnv 1757696207000)) = 3"
  using state_variable_ranges
          [of adminUser seededStorage stubEnv demoUser seededStorage stubEnv 1757696207000]
  by (metis rangeI)




text \<open>
  C10. A citizen sees only their own reports: after the page has loaded and after any
  sequence of events on it, the list of the My Reports view is the stored reports whose
  \<open>userId\<close> is the user's id, in the order of the store, and the count in the tab label is
  their number.
\<close>

theorem myReports_own_only:
  "case user_run e u es ls of (s, ls') \<Rightarrow>
     usr_reports s = filter (\<lambda>r. userId r = user_id u) (getReports ls') \<and>
     (\<forall>r. r \<in> set (usr_reports s) \<longleftrightarrow> r \<in> set (getReports ls') \<and> userId r = user_id u) \<and>
     myReportsCount s = length (filter (\<lambda>r. userId r = user_id u) (getReports ls'))"
proof -
  have "usr_reports (userMount u ls) = filter (\<lambda>r. userId r = user_id u) (getReports ls)"
    by (simp add: userMount_def Let_def)
  from user_fold_own [OF this, of e es]
  show ?thesis by (auto simp: user_run_def myReportsCount_def split: prod.splits)
qed

theorem myReports_own_only_witness:
  "myReportsCount (fst (user_run stubEnv strangerUser (fillForm @ [Submit 1757696300000])
                          seededStorage)) = 1 \<and>
   length (getReports (snd (user_run stubEnv strangerUser (fillForm @ [Submit 1757696300000])
                              seededStorage))) = 3 \<and>
   myReportsCount (userMount demoUser seededStorage) = 2"
proof -
  note own = myReports_own_only [unfolded case_prod_beta, THEN conjunct2, THEN conjunct2]
  have st: "map userId (getReports (snd (user_run stubEnv strangerUser
              (fillForm @ [Submit 1757696300000]) seededStorage))) = [''1'', ''1'', ''99'']"
    unfolding submit_filled_eq
    by (simp add: demoReports_def newReport_def Let_def strangerUser_def)
  have "length (filter (\<lambda>r. userId r = ''99'') rs) = length (filter (\<lambda>x. x = ''99'') (map userId rs))"
    for rs :: "report list"
    by (induction rs) simp_all
  with st own [of stubEnv strangerUser "fillForm @ [Submit 1757696300000]" seededStorage]
  have 1: "myReportsCount (fst (user_run stubEnv strangerUser (fillForm @ [Submit 1757696300000])
                          seededStorage)) = 1"
    by (simp add: strangerUser_def)
  from st have 2: "length (getReports (snd (user_run stubEnv strangerUser
              (fillForm @ [Submit 1757696300000]) seededStorage))) = 3"
    by (metis length_map length_Cons list.size(3) numeral_3_eq_3)
  from own [of stubEnv demoUser "[]" seededStorage]
  have 3: "myReportsCount (userMount demoUser seededStorage) = 2"
    by (simp add: user_run_def getReports_seeded demoReports_def demoUser_def)
  from 1 2 3 show ?thesis by simp
qed

end
